theory Spec2Isabelle
  imports Main "HOL-Library.AList"
begin

section \<open>Exceptions\<close>

text \<open>
  The Python exceptions that the modelled code can end with, by class;
  \<open>OtherException\<close> carries the class name of any other exception (one raised by the
  model loaders of the service, or \<^verbatim>\<open>RecursionError\<close> and the like while a file is
  read). A computation that may raise returns a value of the sum type, the exception on
  the left.
\<close>

datatype py_exn =
    ValueError
  | JSONDecodeError
  | UnicodeDecodeError
  | AttributeError
  | TypeError
  | OtherException string

text \<open>Sequencing: the second computation runs on the value of the first unless that raised.\<close>

definition and_then :: "py_exn + 'a \<Rightarrow> ('a \<Rightarrow> py_exn + 'b) \<Rightarrow> py_exn + 'b" where
  "and_then r f = (case r of Inl e \<Rightarrow> Inl e | Inr x \<Rightarrow> f x)"


section \<open>Version strings and the bump functions\<close>

text \<open>
  Source: \<^verbatim>\<open>src/ml/tests/test_registry.py\<close>, the three local functions of
  \<^verbatim>\<open>test_version_bump_logic\<close> and the pattern of \<^verbatim>\<open>test_registry_structure\<close>.

  These functions look at the characters of a string by class, so a Python \<^verbatim>\<open>str\<close>
  is here the list of its code points. \<open>codes\<close> gives the code points of a literal
  written in ASCII.
\<close>

type_synonym py_str = "nat list"

definition codes :: "string \<Rightarrow> py_str" where
  "codes s = map (of_char :: char \<Rightarrow> nat) s"

text \<open>
  The class \<^verbatim>\<open>\d\<close> of a \<^verbatim>\<open>str\<close> pattern and the digits that \<^verbatim>\<open>int()\<close> reads are the
  same characters: the decimal digits of the Unicode Character Database, which stand in
  runs of ten, zero to nine. \<open>unicode_decimal_zeros\<close> lists the code point of the zero
  of every run, for the database of CPython 3.11 (Unicode 14.0.0): ASCII first, then
  Arabic-Indic, and so on. \<open>to_decimal\<close> is the value of a decimal digit
  (\<^verbatim>\<open>Py_UNICODE_TODECIMAL\<close>), \<^const>\<open>None\<close> for any other character.
\<close>

definition unicode_decimal_zeros :: "nat list" where
  "unicode_decimal_zeros =
     [48, 1632, 1776, 1984, 2406, 2534, 2662, 2790, 2918, 3046, 3174, 3302, 3430, 3558,
      3664, 3792, 3872, 4160, 4240, 6112, 6160, 6470, 6608, 6784, 6800, 6992, 7088, 7232,
      7248, 42528, 43216, 43264, 43472, 43504, 43600, 44016, 65296, 66720, 68912, 69734,
      69872, 69942, 70096, 70384, 70736, 70864, 71248, 71360, 71472, 71904, 72016, 72784,
      73040, 73120, 92768, 92864, 93008, 120782, 120792, 120802, 120812, 120822, 123200,
      123632, 125264, 130032]"

definition to_decimal :: "nat \<Rightarrow> nat option" where
  "to_decimal c =
     (case find (\<lambda>z. z \<le> c \<and> c < z + 10) unicode_decimal_zeros of
        Some z \<Rightarrow> Some (c - z)
      | None \<Rightarrow> None)"

definition is_digit :: "nat \<Rightarrow> bool" where
  "is_digit c = (to_decimal c \<noteq> None)"

definition digit_val :: "nat \<Rightarrow> nat" where
  "digit_val c = (case to_decimal c of Some d \<Rightarrow> d | None \<Rightarrow> 0)"

definition digit_char :: "nat \<Rightarrow> nat" where
  "digit_char d = 48 + d"

text \<open>
  Python integers are unbounded, but the conversions between an integer and its decimal
  text are not: \<^verbatim>\<open>int(s)\<close> raises \<^verbatim>\<open>ValueError\<close> when \<^verbatim>\<open>s\<close> has more digits than
  \<^verbatim>\<open>sys.get_int_max_str_digits()\<close>, leading zeros counted, and so does the rendering
  of an integer whose decimal text is longer than that. The limit is 4300 unless the
  program or its environment changes it, which this repository does not do.
\<close>

definition int_max_str_digits :: nat where
  "int_max_str_digits = 4300"

text \<open>The number that a run of decimal digits denotes.\<close>

definition int_of_digits :: "py_str \<Rightarrow> nat" where
  "int_of_digits ds = foldl (\<lambda>a c. 10 * a + digit_val c) 0 ds"

text \<open>\<^verbatim>\<open>int(s)\<close> on a run of decimal digits (as the groups \<^verbatim>\<open>(\d+)\<close> are).\<close>

definition py_int :: "py_str \<Rightarrow> py_exn + nat" where
  "py_int ds = (if int_max_str_digits < length ds then Inl ValueError
                else Inr (int_of_digits ds))"

text \<open>The decimal text of a number, in ASCII digits, without leading zeros.\<close>

function str_nat :: "nat \<Rightarrow> py_str" where
  "str_nat n = (if n < 10 then [digit_char n] else str_nat (n div 10) @ [digit_char (n mod 10)])"
  by pat_completeness auto
termination
  by (relation "measure id") auto

declare str_nat.simps [simp del]

text \<open>A field \<^verbatim>\<open>{n}\<close> of an f-string, for an integer that is not negative.\<close>

definition py_format :: "nat \<Rightarrow> py_exn + py_str" where
  "py_format n = (if int_max_str_digits < length (str_nat n) then Inl ValueError
                  else Inr (str_nat n))"

text \<open>
  The pieces of the pattern. \<^verbatim>\<open>\d+\<close> is greedy; what follows it in both patterns
  (\<^verbatim>\<open>\.\<close>, the end of the pattern, or \<^verbatim>\<open>$\<close>) can never match where a digit stands,
  so the longest run of digits is the only run with which the match can go on, and
  backtracking adds nothing. Each piece returns what it consumed and the rest.
\<close>

definition lit :: "nat \<Rightarrow> py_str \<Rightarrow> py_str option" where
  "lit c s = (case s of [] \<Rightarrow> None | x # r \<Rightarrow> if x = c then Some r else None)"

definition digits1 :: "py_str \<Rightarrow> (py_str \<times> py_str) option" where
  "digits1 s = (if takeWhile is_digit s = [] then None
                else Some (takeWhile is_digit s, dropWhile is_digit s))"

text \<open>
  \<^verbatim>\<open>re.match(r'v(\d+)\.(\d+)\.(\d+)', version)\<close>: anchored at the start only. The
  result is the three groups and the unmatched rest, or \<^const>\<open>None\<close>. The code points
  118 and 46 are \<^verbatim>\<open>v\<close> and the full stop.
\<close>

definition re_match_bump :: "py_str \<Rightarrow> ((py_str \<times> py_str \<times> py_str) \<times> py_str) option" where
  "re_match_bump version =
     Option.bind (lit 118 version) (\<lambda>r0.
     Option.bind (digits1 r0) (\<lambda>(g1, r1).
     Option.bind (lit 46 r1) (\<lambda>r2.
     Option.bind (digits1 r2) (\<lambda>(g2, r3).
     Option.bind (lit 46 r3) (\<lambda>r4.
     Option.bind (digits1 r4) (\<lambda>(g3, r5).
     Some ((g1, g2, g3), r5)))))))"

text \<open>\<^verbatim>\<open>major, minor, patch = map(int, match.groups())\<close>\<close>

definition parse_groups :: "py_str \<times> py_str \<times> py_str \<Rightarrow> py_exn + (nat \<times> nat \<times> nat)" where
  "parse_groups g =
     (case g of (g1, g2, g3) \<Rightarrow>
        and_then (py_int g1) (\<lambda>major.
        and_then (py_int g2) (\<lambda>minor.
        and_then (py_int g3) (\<lambda>patch.
        Inr (major, minor, patch)))))"

text \<open>\<^verbatim>\<open>f"v{major}.{minor}.{patch}"\<close>, the fields rendered from left to right.\<close>

definition fmt_version :: "nat \<Rightarrow> nat \<Rightarrow> nat \<Rightarrow> py_exn + py_str" where
  "fmt_version major minor patch =
     and_then (py_format major) (\<lambda>s1.
     and_then (py_format minor) (\<lambda>s2.
     and_then (py_format patch) (\<lambda>s3.
     Inr ([118] @ s1 @ [46] @ s2 @ [46] @ s3))))"

definition bump_patch :: "py_str \<Rightarrow> py_exn + py_str" where
  "bump_patch version =
     (case re_match_bump version of
        Some (groups, _) \<Rightarrow>
          and_then (parse_groups groups) (\<lambda>(major, minor, patch).
            fmt_version major minor (patch + 1))
      | None \<Rightarrow> Inr version)"

definition bump_minor :: "py_str \<Rightarrow> py_exn + py_str" where
  "bump_minor version =
     (case re_match_bump version of
        Some (groups, _) \<Rightarrow>
          and_then (parse_groups groups) (\<lambda>(major, minor, patch).
            fmt_version major (minor + 1) 0)
      | None \<Rightarrow> Inr version)"

definition bump_major :: "py_str \<Rightarrow> py_exn + py_str" where
  "bump_major version =
     (case re_match_bump version of
        Some (groups, _) \<Rightarrow>
          and_then (parse_groups groups) (\<lambda>(major, minor, patch).
            fmt_version (major + 1) 0 0)
      | None \<Rightarrow> Inr version)"

text \<open>
  \<^verbatim>\<open>re.match(r'v\d+\.\d+\.\d+$', s)\<close>, the check of \<^verbatim>\<open>test_registry_structure\<close>:
  the same pattern closed by \<^verbatim>\<open>$\<close>, which matches at the end of the string and also
  just before a line feed (code point 10) that ends the string.
\<close>

definition version_pattern_match :: "py_str \<Rightarrow> bool" where
  "version_pattern_match s =
     (case re_match_bump s of
        Some (_, r) \<Rightarrow> r = [] \<or> r = [10]
      | None \<Rightarrow> False)"

text \<open>
  Notions used to state properties of the pattern: a non-empty run of decimal digits
  (what a group \<^verbatim>\<open>\d+\<close> matches as a whole), the text \<^verbatim>\<open>v<g1>.<g2>.<g3>\<close>, the
  version text of three numbers, a rest that does not go on with a digit, and a string
  that begins with a version text.
\<close>

definition all_digits :: "py_str \<Rightarrow> bool" where
  "all_digits ds = (ds \<noteq> [] \<and> list_all is_digit ds)"

definition version_text :: "py_str \<Rightarrow> py_str \<Rightarrow> py_str \<Rightarrow> py_str" where
  "version_text g1 g2 g3 = [118] @ g1 @ [46] @ g2 @ [46] @ g3"

definition version_str :: "nat \<Rightarrow> nat \<Rightarrow> nat \<Rightarrow> py_str" where
  "version_str a b c = version_text (str_nat a) (str_nat b) (str_nat c)"

definition no_digit_ahead :: "py_str \<Rightarrow> bool" where
  "no_digit_ahead r = (case r of [] \<Rightarrow> True | c # _ \<Rightarrow> \<not> is_digit c)"

definition has_version_prefix :: "py_str \<Rightarrow> bool" where
  "has_version_prefix s =
     (\<exists>g1 g2 g3 t. all_digits g1 \<and> all_digits g2 \<and> all_digits g3 \<and> s = version_text g1 g2 g3 @ t)"


section \<open>The registry file\<close>

text \<open>
  Source: \<^verbatim>\<open>src/ml/training/update_registry.py\<close> and the start-up hook of
  \<^verbatim>\<open>src/ml/inference/service.py\<close>.

  The registry code only compares and joins strings, so here a string is a
  \<^typ>\<open>string\<close>. A JSON value as \<^verbatim>\<open>json.load\<close> returns it. A Python \<^verbatim>\<open>dict\<close> keeps its keys in
  insertion order, so an object is an association list (\<^verbatim>\<open>json.load\<close> yields one
  with distinct keys); it is read with \<^const>\<open>map_of\<close> and assigned to with
  \<^const>\<open>AList.update\<close>, which replaces the value of a key that is present where it
  stands and appends a key that is new, as \<^verbatim>\<open>d[k] = v\<close> does. A float is carried by
  its text: the registry code never computes with one.
\<close>

datatype json =
    JNull
  | JBool bool
  | JInt int
  | JFloat string
  | JStr string
  | JArr "json list"
  | JObj "(string \<times> json) list"

text \<open>
  What stands at the registry path. \<^const>\<open>None\<close> of the option type is "no such
  file". The file is kept at the level of what \<^verbatim>\<open>json.load\<close> makes of it:
  \<^item> \<open>Document v\<close>: a JSON text, which loads as the value \<open>v\<close>;
  \<^item> \<open>Incomplete\<close>: the text of a file that is being written and is not yet whole:
    the empty file that \<^verbatim>\<open>open(path, 'w')\<close> leaves behind, or a JSON text cut short,
    which is what stands on disk each time the writer's buffer has been flushed before
    the end of the text. \<^verbatim>\<open>json.load\<close> raises \<^verbatim>\<open>JSONDecodeError\<close> on it;
  \<^item> \<open>Malformed\<close>: any other text that is not JSON (\<^verbatim>\<open>JSONDecodeError\<close>);
  \<^item> \<open>Unreadable e\<close>: a content on which reading ends with another exception \<open>e\<close>
    (\<^verbatim>\<open>UnicodeDecodeError\<close> for bytes that are not text, \<^verbatim>\<open>ValueError\<close> for an
    integer literal beyond the conversion limit, and so on).
\<close>

datatype file_content = Incomplete | Malformed | Unreadable py_exn | Document json

type_synonym registry_file = "file_content option"

datatype ending = Returned | SysExit int | Raised py_exn

text \<open>The exit status of the interpreter when the script ends this way.\<close>

fun exit_code :: "ending \<Rightarrow> int" where
  "exit_code Returned = 0"
| "exit_code (SysExit n) = n"
| "exit_code (Raised e) = 1"

text \<open>The lines the updater prints, by what they say and the values they show.\<close>

datatype message =
    RegistryNotFound
  | ModelNotFound string
  | AvailableModels "string list"
  | Updated string json string
  | RegistrySaved
  | UsageLine
  | ExampleHeader
  | ExampleLine
  | VersionShouldStartWithV

text \<open>
  One call: \<open>states\<close> lists what stood at the registry path during the call, in
  order, the state at entry first; successive contents of the same kind are listed
  once (the empty file and the growing prefixes of a text being written are one entry
  \<open>Incomplete\<close>). \<open>stdout\<close> is the lines printed, in order; \<open>ending\<close> how the call
  ended.
\<close>

record run =
  states :: "registry_file list"
  stdout :: "message list"
  ending :: ending

definition disk :: "run \<Rightarrow> registry_file" where
  "disk r = last (states r)"

text \<open>\<^verbatim>\<open>needle in haystack\<close> on two strings: a substring test.\<close>

primrec str_contains :: "string \<Rightarrow> string \<Rightarrow> bool" where
  "str_contains [] needle = (needle = [])"
| "str_contains (c # cs) needle =
     (take (length needle) (c # cs) = needle \<or> str_contains cs needle)"

text \<open>
  \<^verbatim>\<open>model_name in registry\<close>: key membership on a dict, element membership on a list,
  the substring test on a string, \<^verbatim>\<open>TypeError\<close> on anything else.
\<close>

fun py_in :: "string \<Rightarrow> json \<Rightarrow> py_exn + bool" where
  "py_in k (JObj d) = Inr (k \<in> set (map fst d))"
| "py_in k (JArr xs) = Inr (JStr k \<in> set xs)"
| "py_in k (JStr s) = Inr (str_contains s k)"
| "py_in k _ = Inl TypeError"

text \<open>\<^verbatim>\<open>list(registry.keys())\<close>: only a dict has \<^verbatim>\<open>keys\<close>.\<close>

fun py_keys :: "json \<Rightarrow> py_exn + string list" where
  "py_keys (JObj d) = Inr (map fst d)"
| "py_keys _ = Inl AttributeError"

text \<open>\<^verbatim>\<open>registry.get(key, default)\<close>: only a dict has \<^verbatim>\<open>get\<close>.\<close>

fun py_get :: "json \<Rightarrow> string \<Rightarrow> json \<Rightarrow> py_exn + json" where
  "py_get (JObj d) k dflt = Inr (case map_of d k of Some v \<Rightarrow> v | None \<Rightarrow> dflt)"
| "py_get _ k dflt = Inl AttributeError"

text \<open>
  \<^verbatim>\<open>update_model_version(model_name, new_version)\<close>. The two inputs it takes from its
  environment are arguments here: \<open>now\<close>, the text \<^verbatim>\<open>datetime.utcnow().isoformat()\<close>
  returns, and \<open>file\<close>, what stands at the registry path.

  The file is written by \<^verbatim>\<open>open(registry_path, 'w')\<close>, which truncates it, followed
  by \<^verbatim>\<open>json.dump\<close> into the open file. The text reaches the file through the
  writer's buffer, in one piece when the \<^verbatim>\<open>with\<close> block closes the file or, when it
  is longer than the buffer, in several: until the last piece is written the file is
  \<open>Incomplete\<close>.
\<close>

definition update_model_version :: "string \<Rightarrow> registry_file \<Rightarrow> string \<Rightarrow> string \<Rightarrow> run" where
  "update_model_version now file model_name new_version =
     (case file of
        None \<Rightarrow> \<lparr>states = [file], stdout = [RegistryNotFound], ending = SysExit 1\<rparr>
      | Some Incomplete \<Rightarrow> \<lparr>states = [file], stdout = [], ending = Raised JSONDecodeError\<rparr>
      | Some Malformed \<Rightarrow> \<lparr>states = [file], stdout = [], ending = Raised JSONDecodeError\<rparr>
      | Some (Unreadable e) \<Rightarrow> \<lparr>states = [file], stdout = [], ending = Raised e\<rparr>
      | Some (Document registry) \<Rightarrow>
          (case py_in model_name registry of
             Inl e \<Rightarrow> \<lparr>states = [file], stdout = [], ending = Raised e\<rparr>
           | Inr False \<Rightarrow>
               (case py_keys registry of
                  Inl e \<Rightarrow>
                    \<lparr>states = [file], stdout = [ModelNotFound model_name], ending = Raised e\<rparr>
                | Inr ks \<Rightarrow>
                    \<lparr>states = [file], stdout = [ModelNotFound model_name, AvailableModels ks],
                     ending = SysExit 1\<rparr>)
           | Inr True \<Rightarrow>
               (case py_get registry model_name (JStr ''unknown'') of
                  Inl e \<Rightarrow> \<lparr>states = [file], stdout = [], ending = Raised e\<rparr>
                | Inr old_version \<Rightarrow>
                    (case registry of
                       JObj d \<Rightarrow>
                         (let d1 = AList.update model_name (JStr new_version) d;
                              d2 = AList.update ''last_updated'' (JStr (now @ ''Z'')) d1
                          in \<lparr>states = [file, Some Incomplete, Some (Document (JObj d2))],
                              stdout = [Updated model_name old_version new_version, RegistrySaved],
                              ending = Returned\<rparr>)
                     | _ \<Rightarrow> \<lparr>states = [file], stdout = [], ending = Raised TypeError\<rparr>))))"

text \<open>
  Reading a file state for the statements below: the value of a top-level key of the
  document, and the top-level keys in order (none when the file holds no JSON object).
\<close>

definition top_level :: "registry_file \<Rightarrow> string \<Rightarrow> json option" where
  "top_level file k = (case file of Some (Document (JObj d)) \<Rightarrow> map_of d k | _ \<Rightarrow> None)"

definition top_keys :: "registry_file \<Rightarrow> string list" where
  "top_keys file = (case file of Some (Document (JObj d)) \<Rightarrow> map fst d | _ \<Rightarrow> [])"

text \<open>\<^verbatim>\<open>new_version.startswith('v')\<close>\<close>

definition startswith_v :: "string \<Rightarrow> bool" where
  "startswith_v s = (case s of [] \<Rightarrow> False | c # _ \<Rightarrow> c = CHR ''v'')"

text \<open>
  \<^verbatim>\<open>main()\<close>, with \<^verbatim>\<open>sys.argv\<close> as an argument (the program name first). The
  warning is printed before the update runs.
\<close>

definition main :: "string \<Rightarrow> registry_file \<Rightarrow> string list \<Rightarrow> run" where
  "main now file argv =
     (if length argv \<noteq> 3
      then \<lparr>states = [file], stdout = [UsageLine, ExampleHeader, ExampleLine], ending = SysExit 1\<rparr>
      else
        (let model_name = argv ! 1; new_version = argv ! 2
         in if \<not> startswith_v new_version
            then (let r = update_model_version now file model_name (''v'' @ new_version)
                  in r\<lparr>stdout := VersionShouldStartWithV # stdout r\<rparr>)
            else update_model_version now file model_name new_version))"


text \<open>
  A registry document of the shape the repository uses (the three model entries, the
  time stamp and the metadata of \<^verbatim>\<open>test_metadata_preservation\<close>), and a clock reading,
  for the concrete cases below.
\<close>

definition example_registry :: "(string \<times> json) list" where
  "example_registry =
     [(''embedding_model'', JStr ''v1.0.0''),
      (''emergency_classifier'', JStr ''v1.0.0''),
      (''translation_model'', JStr ''v1.0.0''),
      (''last_updated'', JStr ''2024-01-01T00:00:00Z''),
      (''metadata'',
         JObj [(''embedding_model'',
                  JObj [(''dimension'', JInt 768), (''base'', JStr ''test-model'')])])]"

definition example_file :: registry_file where
  "example_file = Some (Document (JObj example_registry))"

definition example_now :: string where
  "example_now = ''2025-06-01T12:00:00''"


section \<open>The start-up hook of the inference service\<close>

text \<open>
  \<^verbatim>\<open>load_models()\<close> of \<^verbatim>\<open>service.py\<close>: the registry block at its head, inside the
  \<^verbatim>\<open>try\<close> whose handler logs the exception and raises it again. The log is the list
  of records written, by level and by what they say.
\<close>

datatype level = INFO | WARNING | ERROR

datatype log_message =
    Rule
  | StartingService
  | RegistryLoaded
  | VersionLine string json
  | RegistryNotFoundAt
  | BlankLine
  | LoadingModels
  | AllModelsLoaded
  | ErrorLoadingModels py_exn

type_synonym log_record = "level \<times> log_message"

record startup =
  model_versions :: "(string \<times> json) list"
  log :: "log_record list"
  raised :: "py_exn option"

text \<open>
  The registry block (the \<^verbatim>\<open>if registry_path.exists(): ... else: ...\<close> statement): the
  value it assigns to the global \<^verbatim>\<open>model_versions\<close> and the records it logs, or the
  exception it raises.
\<close>

definition registry_block :: "registry_file \<Rightarrow> py_exn + ((string \<times> json) list \<times> log_record list)" where
  "registry_block file =
     (case file of
        None \<Rightarrow>
          Inr ([(''embedding_model'', JStr ''v1.0.0''),
                (''emergency_classifier'', JStr ''v1.0.0''),
                (''translation_model'', JStr ''v1.0.0''),
                (''last_updated'', JStr ''unknown'')],
               [(WARNING, RegistryNotFoundAt)])
      | Some Incomplete \<Rightarrow> Inl JSONDecodeError
      | Some Malformed \<Rightarrow> Inl JSONDecodeError
      | Some (Unreadable e) \<Rightarrow> Inl e
      | Some (Document registry) \<Rightarrow>
          (case py_get registry ''embedding_model'' (JStr ''unknown'') of
             Inl e \<Rightarrow> Inl e
           | Inr v1 \<Rightarrow>
          (case py_get registry ''emergency_classifier'' (JStr ''unknown'') of
             Inl e \<Rightarrow> Inl e
           | Inr v2 \<Rightarrow>
          (case py_get registry ''translation_model'' (JStr ''unknown'') of
             Inl e \<Rightarrow> Inl e
           | Inr v3 \<Rightarrow>
          (case py_get registry ''last_updated'' (JStr ''unknown'') of
             Inl e \<Rightarrow> Inl e
           | Inr v4 \<Rightarrow>
               Inr ([(''embedding_model'', v1),
                     (''emergency_classifier'', v2),
                     (''translation_model'', v3),
                     (''last_updated'', v4)],
                    [(INFO, RegistryLoaded),
                     (INFO, VersionLine ''embedding_model'' v1),
                     (INFO, VersionLine ''emergency_classifier'' v2),
                     (INFO, VersionLine ''translation_model'' v3)]))))))"

text \<open>
  The whole hook. What follows the registry block (loading the three models) is not
  registry code; it is the argument \<open>rest\<close>: the records it logs and the exception it
  ends with, if any. The global \<^verbatim>\<open>model_versions\<close> is the empty dict until the
  registry block assigns it.
\<close>

definition load_models :: "registry_file \<Rightarrow> (log_record list \<times> py_exn option) \<Rightarrow> startup" where
  "load_models file rest =
     (let head = [(INFO, Rule), (INFO, StartingService), (INFO, Rule)]
      in case registry_block file of
           Inl e \<Rightarrow>
             \<lparr>model_versions = [],
              log = head @ [(ERROR, ErrorLoadingModels e)],
              raised = Some e\<rparr>
         | Inr (versions, lines) \<Rightarrow>
             (case snd rest of
                Some e \<Rightarrow>
                  \<lparr>model_versions = versions,
                   log = head @ lines @ [(INFO, BlankLine), (INFO, LoadingModels)] @ fst rest
                         @ [(ERROR, ErrorLoadingModels e)],
                   raised = Some e\<rparr>
              | None \<Rightarrow>
                  \<lparr>model_versions = versions,
                   log = head @ lines @ [(INFO, BlankLine), (INFO, LoadingModels)] @ fst rest
                         @ [(INFO, BlankLine), (INFO, Rule), (INFO, AllModelsLoaded), (INFO, Rule)],
                   raised = None\<rparr>))"


section \<open>Properties of the bump functions\<close>

lemma to_decimal_ascii: "d < 10 \<Longrightarrow> to_decimal (48 + d) = Some d"
  by (simp add: to_decimal_def unicode_decimal_zeros_def)

lemma is_digit_digit_char: "d < 10 \<Longrightarrow> is_digit (digit_char d)"
  by (simp add: is_digit_def digit_char_def to_decimal_ascii)

lemma digit_val_digit_char: "d < 10 \<Longrightarrow> digit_val (digit_char d) = d"
  by (simp add: digit_val_def digit_char_def to_decimal_ascii)

lemma not_digit_dot: "\<not> is_digit 46"
  by (simp add: is_digit_def to_decimal_def unicode_decimal_zeros_def)

lemma digit_val_less: "digit_val c < 10"
proof (cases "find (\<lambda>z. z \<le> c \<and> c < z + 10) unicode_decimal_zeros")
  case None
  then show ?thesis by (simp add: digit_val_def to_decimal_def)
next
  case (Some z)
  then have "z \<le> c \<and> c < z + 10" by (auto simp: find_Some_iff)
  then have "c - z < 10" by arith
  with Some show ?thesis by (simp add: digit_val_def to_decimal_def)
qed

lemma int_max_str_digits_pos: "0 < int_max_str_digits"
  by (simp add: int_max_str_digits_def)

lemma all_digits_str_nat: "all_digits (str_nat n)"
proof (induction n rule: str_nat.induct)
  case (1 n)
  show ?case
  proof (cases "n < 10")
    case True
    then show ?thesis
      by (subst str_nat.simps) (simp add: all_digits_def is_digit_digit_char)
  next
    case False
    with 1 have "all_digits (str_nat (n div 10))" by simp
    with False show ?thesis
      by (subst str_nat.simps) (simp add: all_digits_def is_digit_digit_char)
  qed
qed

lemma int_of_digits_snoc: "int_of_digits (ds @ [c]) = 10 * int_of_digits ds + digit_val c"
  by (simp add: int_of_digits_def)

lemma int_of_digits_str_nat: "int_of_digits (str_nat n) = n"
proof (induction n rule: str_nat.induct)
  case (1 n)
  show ?case
  proof (cases "n < 10")
    case True
    then show ?thesis
      by (subst str_nat.simps) (simp add: int_of_digits_def digit_val_digit_char)
  next
    case False
    with 1 have "int_of_digits (str_nat (n div 10)) = n div 10" by simp
    with False show ?thesis
      by (subst str_nat.simps) (simp add: int_of_digits_snoc digit_val_digit_char)
  qed
qed

text \<open>A run of \<open>k\<close> digits denotes a number below \<open>10 ^ k\<close>.\<close>

lemma int_of_digits_less: "int_of_digits ds < 10 ^ length ds"
proof (induction ds rule: rev_induct)
  case Nil
  show ?case by (simp add: int_of_digits_def)
next
  case (snoc c ds)
  have "digit_val c < 10" by (rule digit_val_less)
  with snoc have "10 * int_of_digits ds + digit_val c < 10 * 10 ^ length ds" by arith
  then show ?case by (simp add: int_of_digits_snoc)
qed

text \<open>The decimal text of a number has at most \<open>k\<close> digits just when the number is below \<open>10 ^ k\<close>.\<close>

lemma length_str_nat_le: "0 < k \<Longrightarrow> (length (str_nat n) \<le> k) = (n < 10 ^ k)"
proof (induction n arbitrary: k rule: str_nat.induct)
  case (1 n)
  show ?case
  proof (cases "n < 10")
    case True
    from \<open>0 < k\<close> have "(10::nat) ^ 1 \<le> 10 ^ k" by (intro power_increasing) simp_all
    with True have "n < 10 ^ k" by simp
    with True \<open>0 < k\<close> show ?thesis by (subst str_nat.simps) simp
  next
    case False
    have len: "length (str_nat n) = Suc (length (str_nat (n div 10)))"
      using False by (subst str_nat.simps) simp
    show ?thesis
    proof (cases k)
      case 0
      with \<open>0 < k\<close> show ?thesis by simp
    next
      case (Suc j)
      show ?thesis
      proof (cases "j = 0")
        case True
        have "0 < length (str_nat (n div 10))"
          using all_digits_str_nat [of "n div 10"] by (simp add: all_digits_def)
        with True Suc False len show ?thesis by simp
      next
        case nz: False
        then have "0 < j" by simp
        from "1.IH" [OF False this]
        have "(length (str_nat (n div 10)) \<le> j) = (n div 10 < 10 ^ j)" .
        moreover have "(n div 10 < 10 ^ j) = (n < 10 ^ Suc j)"
          by (simp add: div_less_iff_less_mult mult.commute)
        ultimately show ?thesis using len Suc by simp
      qed
    qed
  qed
qed

lemma py_int_eq:
  "py_int ds = (if length ds \<le> int_max_str_digits then Inr (int_of_digits ds) else Inl ValueError)"
  by (simp add: py_int_def)

lemma py_format_eq:
  "py_format n = (if n < 10 ^ int_max_str_digits then Inr (str_nat n) else Inl ValueError)"
  using length_str_nat_le [OF int_max_str_digits_pos, of n]
  by (auto simp: py_format_def)

lemma fmt_version_eq:
  "fmt_version a b c =
     (if a < 10 ^ int_max_str_digits \<and> b < 10 ^ int_max_str_digits \<and> c < 10 ^ int_max_str_digits
      then Inr (version_str a b c) else Inl ValueError)"
  by (simp add: fmt_version_def py_format_eq and_then_def version_str_def version_text_def)

lemma parse_groups_eq:
  "parse_groups (g1, g2, g3) =
     (if length g1 \<le> int_max_str_digits \<and> length g2 \<le> int_max_str_digits
         \<and> length g3 \<le> int_max_str_digits
      then Inr (int_of_digits g1, int_of_digits g2, int_of_digits g3) else Inl ValueError)"
  by (simp add: parse_groups_def py_int_eq and_then_def)

lemma digits1_any:
  assumes "all_digits ds"
  shows "digits1 (ds @ t) = Some (ds @ takeWhile is_digit t, dropWhile is_digit t)"
proof -
  from assms have ne: "ds \<noteq> []" and al: "\<forall>c\<in>set ds. is_digit c"
    by (simp_all add: all_digits_def list_all_iff)
  from al have "takeWhile is_digit (ds @ t) = ds @ takeWhile is_digit t"
    by simp
  moreover from al have "dropWhile is_digit (ds @ t) = dropWhile is_digit t"
    by simp
  ultimately show ?thesis using ne by (simp add: digits1_def)
qed

lemma digits1_run:
  assumes "all_digits ds" and "no_digit_ahead r"
  shows "digits1 (ds @ r) = Some (ds, r)"
proof -
  from assms(2) have "takeWhile is_digit r = []" and "dropWhile is_digit r = r"
    by (cases r; simp add: no_digit_ahead_def)+
  with digits1_any [OF assms(1), of r] show ?thesis by simp
qed

lemma re_match_bump_version_text:
  assumes "all_digits g1" "all_digits g2" "all_digits g3"
  shows "re_match_bump (version_text g1 g2 g3 @ t) =
           Some ((g1, g2, g3 @ takeWhile is_digit t), dropWhile is_digit t)"
proof -
  have nd: "\<And>r. no_digit_ahead (46 # r)"
    by (simp add: no_digit_ahead_def not_digit_dot)
  have d1: "digits1 (g1 @ 46 # g2 @ 46 # g3 @ t) = Some (g1, 46 # g2 @ 46 # g3 @ t)"
    using digits1_run [OF assms(1) nd] .
  have d2: "digits1 (g2 @ 46 # g3 @ t) = Some (g2, 46 # g3 @ t)"
    using digits1_run [OF assms(2) nd] .
  have d3: "digits1 (g3 @ t) = Some (g3 @ takeWhile is_digit t, dropWhile is_digit t)"
    using digits1_any [OF assms(3)] .
  show ?thesis
    by (simp add: re_match_bump_def version_text_def lit_def d1 d2 d3)
qed

lemma re_match_bump_version_str:
  "re_match_bump (version_str a b c) = Some ((str_nat a, str_nat b, str_nat c), [])"
  using re_match_bump_version_text
          [OF all_digits_str_nat all_digits_str_nat all_digits_str_nat, of a b c "[]"]
  by (simp add: version_str_def)

lemma succ_below_limit: "Suc n < 10 ^ int_max_str_digits \<Longrightarrow> n < 10 ^ int_max_str_digits"
  by simp

text \<open>The three bump functions on the version text of three numbers, with every case of the limit.\<close>

lemma bump_patch_version_str:
  "bump_patch (version_str a b c) =
     (if a < 10 ^ int_max_str_digits \<and> b < 10 ^ int_max_str_digits
         \<and> c + 1 < 10 ^ int_max_str_digits
      then Inr (version_str a b (c + 1)) else Inl ValueError)"
proof -
  have p: "parse_groups (str_nat a, str_nat b, str_nat c) =
             (if a < 10 ^ int_max_str_digits \<and> b < 10 ^ int_max_str_digits
                 \<and> c < 10 ^ int_max_str_digits
              then Inr (a, b, c) else Inl ValueError)"
    by (simp add: parse_groups_eq length_str_nat_le [OF int_max_str_digits_pos]
          int_of_digits_str_nat)
  show ?thesis
    using succ_below_limit [of c]
    by (auto simp: bump_patch_def re_match_bump_version_str p and_then_def fmt_version_eq)
qed

lemma bump_minor_version_str:
  "bump_minor (version_str a b c) =
     (if a < 10 ^ int_max_str_digits \<and> b + 1 < 10 ^ int_max_str_digits
         \<and> c < 10 ^ int_max_str_digits
      then Inr (version_str a (b + 1) 0) else Inl ValueError)"
proof -
  have p: "parse_groups (str_nat a, str_nat b, str_nat c) =
             (if a < 10 ^ int_max_str_digits \<and> b < 10 ^ int_max_str_digits
                 \<and> c < 10 ^ int_max_str_digits
              then Inr (a, b, c) else Inl ValueError)"
    by (simp add: parse_groups_eq length_str_nat_le [OF int_max_str_digits_pos]
          int_of_digits_str_nat)
  show ?thesis
    using succ_below_limit [of b]
    by (auto simp: bump_minor_def re_match_bump_version_str p and_then_def fmt_version_eq)
qed

lemma bump_major_version_str:
  "bump_major (version_str a b c) =
     (if a + 1 < 10 ^ int_max_str_digits \<and> b < 10 ^ int_max_str_digits
         \<and> c < 10 ^ int_max_str_digits
      then Inr (version_str (a + 1) 0 0) else Inl ValueError)"
proof -
  have p: "parse_groups (str_nat a, str_nat b, str_nat c) =
             (if a < 10 ^ int_max_str_digits \<and> b < 10 ^ int_max_str_digits
                 \<and> c < 10 ^ int_max_str_digits
              then Inr (a, b, c) else Inl ValueError)"
    by (simp add: parse_groups_eq length_str_nat_le [OF int_max_str_digits_pos]
          int_of_digits_str_nat)
  show ?thesis
    using succ_below_limit [of a]
    by (auto simp: bump_major_def re_match_bump_version_str p and_then_def fmt_version_eq)
qed

lemma small_below_limit: "(n::nat) < 100 \<Longrightarrow> n < 10 ^ int_max_str_digits"
proof -
  assume "n < 100"
  have "(10::nat) ^ 2 \<le> 10 ^ int_max_str_digits"
    by (intro power_increasing) (simp_all add: int_max_str_digits_def)
  with \<open>n < 100\<close> show ?thesis by simp
qed

lemma literal_versions:
  "version_str 1 0 9 = codes ''v1.0.9''" "version_str 1 0 10 = codes ''v1.0.10''"
  "version_str 2 9 3 = codes ''v2.9.3''" "version_str 2 10 0 = codes ''v2.10.0''"
  "version_str 9 9 9 = codes ''v9.9.9''" "version_str 10 0 0 = codes ''v10.0.0''"
  by (simp_all add: version_str_def version_text_def codes_def str_nat.simps digit_char_def)

text \<open>
  C4 (as amended). With the limit of 4300 digits on decimal conversions: on the text
  \<^verbatim>\<open>v<a>.<b>.<c>\<close> of three natural numbers, \<open>bump_patch\<close> returns
  \<^verbatim>\<open>v<a>.<b>.<c+1>\<close> (major and minor unchanged, no carry into minor) when \<open>a\<close>,
  \<open>b\<close> and \<open>c + 1\<close> are below \<open>10 ^ 4300\<close>, \<open>bump_minor\<close> returns \<^verbatim>\<open>v<a>.<b+1>.0\<close>
  when \<open>a\<close>, \<open>b + 1\<close> and \<open>c\<close> are, and \<open>bump_major\<close> returns \<^verbatim>\<open>v<a+1>.0.0\<close> when
  \<open>a + 1\<close>, \<open>b\<close> and \<open>c\<close> are; in every other case the function raises
  \<^verbatim>\<open>ValueError\<close>. In particular \<^verbatim>\<open>v1.0.9\<close> goes to \<^verbatim>\<open>v1.0.10\<close>, \<^verbatim>\<open>v2.9.3\<close> to
  \<^verbatim>\<open>v2.10.0\<close> and \<^verbatim>\<open>v9.9.9\<close> to \<^verbatim>\<open>v10.0.0\<close>.
\<close>

theorem bump_functions_correct:
  "bump_patch (version_str a b c) =
     (if a < 10 ^ int_max_str_digits \<and> b < 10 ^ int_max_str_digits
         \<and> c + 1 < 10 ^ int_max_str_digits
      then Inr (version_str a b (c + 1)) else Inl ValueError)
   \<and> bump_minor (version_str a b c) =
     (if a < 10 ^ int_max_str_digits \<and> b + 1 < 10 ^ int_max_str_digits
         \<and> c < 10 ^ int_max_str_digits
      then Inr (version_str a (b + 1) 0) else Inl ValueError)
   \<and> bump_major (version_str a b c) =
     (if a + 1 < 10 ^ int_max_str_digits \<and> b < 10 ^ int_max_str_digits
         \<and> c < 10 ^ int_max_str_digits
      then Inr (version_str (a + 1) 0 0) else Inl ValueError)
   \<and> int_max_str_digits = 4300
   \<and> bump_patch (codes ''v1.0.9'') = Inr (codes ''v1.0.10'')
   \<and> bump_minor (codes ''v2.9.3'') = Inr (codes ''v2.10.0'')
   \<and> bump_major (codes ''v9.9.9'') = Inr (codes ''v10.0.0'')"
proof -
  have p: "bump_patch (version_str 1 0 9) = Inr (version_str 1 0 10)"
    by (simp only: bump_patch_version_str) (simp add: small_below_limit)
  have m: "bump_minor (version_str 2 9 3) = Inr (version_str 2 10 0)"
    by (simp only: bump_minor_version_str) (simp add: small_below_limit)
  have j: "bump_major (version_str 9 9 9) = Inr (version_str 10 0 0)"
    by (simp only: bump_major_version_str) (simp add: small_below_limit)
  from p m j have literal:
    "bump_patch (codes ''v1.0.9'') = Inr (codes ''v1.0.10'')"
    "bump_minor (codes ''v2.9.3'') = Inr (codes ''v2.10.0'')"
    "bump_major (codes ''v9.9.9'') = Inr (codes ''v10.0.0'')"
    by (simp_all only: literal_versions)
  show ?thesis
    using literal bump_patch_version_str [of a b c] bump_minor_version_str [of a b c]
      bump_major_version_str [of a b c] int_max_str_digits_def
    by blast
qed

lemma str_nat_small: "n < 10 \<Longrightarrow> str_nat n = [48 + n]"
  by (subst str_nat.simps) (simp add: digit_char_def)

lemma nines_step:
  fixes m :: nat
  assumes "10 \<le> m"
  shows "\<not> 10 * m - 1 < 10" and "(10 * m - 1) div 10 = m - 1" and "(10 * m - 1) mod 10 = 9"
proof -
  from assms obtain j where m: "m = Suc j" by (cases m) auto
  have e: "10 * m - 1 = 9 + j * 10" by (simp add: m)
  from assms show "\<not> 10 * m - 1 < 10" by simp
  show "(10 * m - 1) div 10 = m - 1" unfolding e by (simp add: m)
  show "(10 * m - 1) mod 10 = 9" unfolding e by simp
qed

text \<open>The largest number of \<open>k\<close> digits is written with \<open>k\<close> nines (code point 57).\<close>

lemma str_nat_nines: "0 < k \<Longrightarrow> str_nat (10 ^ k - 1) = replicate k 57"
proof (induction k)
  case 0
  then show ?case by simp
next
  case (Suc k)
  show ?case
  proof (cases "k = 0")
    case True
    then show ?thesis using str_nat_small [of 9] by simp
  next
    case False
    then have IH: "str_nat (10 ^ k - 1) = replicate k 57" using Suc by simp
    from False have "(10::nat) ^ 1 \<le> 10 ^ k" by (intro power_increasing) simp_all
    then have big: "(10::nat) \<le> 10 ^ k" by simp
    define n :: nat where "n = 10 * 10 ^ k - 1"
    have step: "\<not> n < 10" "n div 10 = 10 ^ k - 1" "n mod 10 = 9"
      unfolding n_def by (rule nines_step [OF big])+
    have "str_nat n = (if n < 10 then [digit_char n]
                       else str_nat (n div 10) @ [digit_char (n mod 10)])"
      by (rule str_nat.simps)
    also have "\<dots> = str_nat (10 ^ k - 1) @ [digit_char 9]"
      by (simp only: step if_False)
    finally have "str_nat (10 * 10 ^ k - 1) = str_nat (10 ^ k - 1) @ [57]"
      by (simp add: digit_char_def n_def)
    with IH show ?thesis
      by (simp add: replicate_append_same)
  qed
qed

text \<open>
  C4 as stated fails for numbers of any size: the patch number written with 4300 nines
  is read, but its successor has 4301 digits and cannot be rendered, so \<open>bump_patch\<close>
  raises \<^verbatim>\<open>ValueError\<close> instead of returning the next version.
\<close>

theorem bump_unbounded_counterexample:
  "int_max_str_digits = 4300
   \<and> version_str 1 0 (10 ^ int_max_str_digits - 1)
        = codes ''v1.0.'' @ replicate int_max_str_digits 57
   \<and> bump_patch (version_str 1 0 (10 ^ int_max_str_digits - 1)) = Inl ValueError"
proof -
  have one: "str_nat 1 = [49]" and zero: "str_nat 0 = [48]"
    using str_nat_small [of 1] str_nat_small [of 0] by simp_all
  have nines: "str_nat (10 ^ int_max_str_digits - 1) = replicate int_max_str_digits 57"
    by (rule str_nat_nines [OF int_max_str_digits_pos])
  have shape: "version_str 1 0 (10 ^ int_max_str_digits - 1)
                = codes ''v1.0.'' @ replicate int_max_str_digits 57"
    unfolding version_str_def version_text_def one zero nines by (simp add: codes_def)
  have top: "(10::nat) ^ int_max_str_digits - 1 + 1 = 10 ^ int_max_str_digits" by simp
  have raise: "bump_patch (version_str 1 0 (10 ^ int_max_str_digits - 1)) = Inl ValueError"
    by (simp only: bump_patch_version_str top) simp
  from int_max_str_digits_def shape raise show ?thesis by (intro conjI)
qed

lemma lit_Some: "lit c s = Some r \<Longrightarrow> s = c # r"
  by (cases s) (auto simp: lit_def split: if_splits)

lemma digits1_Some:
  assumes "digits1 s = Some (g, r)"
  shows "all_digits g \<and> s = g @ r \<and> no_digit_ahead r"
proof -
  from assms have g: "g = takeWhile is_digit s" and r: "r = dropWhile is_digit s"
    and ne: "g \<noteq> []"
    by (auto simp: digits1_def split: if_splits)
  have "list_all is_digit (takeWhile is_digit s)"
    by (auto simp: list_all_iff dest: set_takeWhileD)
  moreover have "no_digit_ahead (dropWhile is_digit s)"
  proof (cases "dropWhile is_digit s")
    case Nil
    show ?thesis unfolding no_digit_ahead_def Nil by simp
  next
    case (Cons c cs)
    with hd_dropWhile [of is_digit s] have "\<not> is_digit c" by simp
    with Cons show ?thesis by (simp add: no_digit_ahead_def)
  qed
  ultimately show ?thesis using g r ne by (simp add: all_digits_def)
qed

lemma re_match_bump_Some:
  assumes "re_match_bump s = Some ((g1, g2, g3), r)"
  shows "all_digits g1 \<and> all_digits g2 \<and> all_digits g3
         \<and> s = version_text g1 g2 g3 @ r \<and> no_digit_ahead r"
proof -
  from assms obtain r0 r1 r2 r3 r4 where
    l0: "lit 118 s = Some r0" and d1: "digits1 r0 = Some (g1, r1)" and
    l1: "lit 46 r1 = Some r2" and d2: "digits1 r2 = Some (g2, r3)" and
    l2: "lit 46 r3 = Some r4" and d3: "digits1 r4 = Some (g3, r)"
    by (auto simp: re_match_bump_def bind_eq_Some_conv)
  from lit_Some [OF l0] digits1_Some [OF d1] lit_Some [OF l1] digits1_Some [OF d2]
       lit_Some [OF l2] digits1_Some [OF d3]
  show ?thesis by (simp add: version_text_def)
qed

lemma re_match_bump_None: "\<not> has_version_prefix s \<Longrightarrow> re_match_bump s = None"
proof (rule ccontr)
  assume no: "\<not> has_version_prefix s" and "re_match_bump s \<noteq> None"
  then obtain x where x: "re_match_bump s = Some x" by auto
  obtain g1 g2 g3 r where "x = ((g1, g2, g3), r)" by (cases x) auto
  with x have "re_match_bump s = Some ((g1, g2, g3), r)" by simp
  from re_match_bump_Some [OF this] have "has_version_prefix s"
    unfolding has_version_prefix_def by blast
  with no show False by simp
qed

text \<open>
  C5 (as amended). For every string on which the pattern finds no match, that is
  every string that does not begin with \<^verbatim>\<open>v<digits>.<digits>.<digits>\<close>, each of
  \<open>bump_patch\<close>, \<open>bump_minor\<close> and \<open>bump_major\<close> returns the string itself, unchanged,
  and raises nothing.
\<close>

theorem bump_without_version_prefix:
  assumes "\<not> has_version_prefix s"
  shows "bump_patch s = Inr s \<and> bump_minor s = Inr s \<and> bump_major s = Inr s"
proof -
  from assms have "re_match_bump s = None" by (rule re_match_bump_None)
  then show ?thesis by (simp add: bump_patch_def bump_minor_def bump_major_def)
qed

theorem bump_without_version_prefix_witness:
  "\<not> has_version_prefix (codes ''1.0.0'')
   \<and> bump_patch (codes ''1.0.0'') = Inr (codes ''1.0.0'')
   \<and> bump_minor (codes ''1.0.0'') = Inr (codes ''1.0.0'')
   \<and> bump_major (codes ''1.0.0'') = Inr (codes ''1.0.0'')"
proof -
  have n: "\<not> has_version_prefix (codes ''1.0.0'')"
    by (simp add: has_version_prefix_def version_text_def codes_def)
  from bump_without_version_prefix [OF n] n show ?thesis by simp
qed

text \<open>
  C5 as stated fails: \<^verbatim>\<open>1.0.0\<close> does not match the version pattern, and all three
  functions return it unchanged instead of failing.
\<close>

theorem bump_invalid_counterexample:
  "\<not> version_pattern_match (codes ''1.0.0'')
   \<and> bump_patch (codes ''1.0.0'') = Inr (codes ''1.0.0'')
   \<and> bump_minor (codes ''1.0.0'') = Inr (codes ''1.0.0'')
   \<and> bump_major (codes ''1.0.0'') = Inr (codes ''1.0.0'')"
proof -
  have "re_match_bump (codes ''1.0.0'') = None"
    by (simp add: re_match_bump_def lit_def codes_def)
  then show ?thesis
    by (simp add: version_pattern_match_def bump_patch_def bump_minor_def bump_major_def)
qed

lemma all_digits_replicate:
  "0 < k \<Longrightarrow> d < 10 \<Longrightarrow> all_digits (replicate k (48 + d))"
  using is_digit_digit_char [of d]
  by (simp add: all_digits_def list_all_iff digit_char_def)

lemma all_digits_single: "d < 10 \<Longrightarrow> all_digits [48 + d]"
  using all_digits_replicate [of 1 d] by simp

lemma int_of_digits_single: "d < 10 \<Longrightarrow> int_of_digits [48 + d] = d"
  using digit_val_digit_char [of d] by (simp add: int_of_digits_def digit_char_def)

lemma int_of_digits_below_limit:
  "length ds \<le> int_max_str_digits \<Longrightarrow> int_of_digits ds < 10 ^ int_max_str_digits"
proof -
  assume "length ds \<le> int_max_str_digits"
  then have "(10::nat) ^ length ds \<le> 10 ^ int_max_str_digits"
    by (intro power_increasing) simp_all
  with int_of_digits_less [of ds] show ?thesis by (rule less_le_trans)
qed

text \<open>
  C10 (as amended). The pattern is anchored at the start only. On every string that
  begins with a text \<^verbatim>\<open>v<g1>.<g2>.<g3>\<close> (three non-empty runs of decimal digits) and
  goes on with any characters \<open>t\<close>, each bump function reads the longest version at
  the head, the last group taking with \<open>g3\<close> the digits that \<open>t\<close> may begin with, and
  drops the rest of \<open>t\<close>. When no group read is longer than 4300 digits, \<open>bump_minor\<close>
  and \<open>bump_major\<close> return what they return on \<^verbatim>\<open>v<g1>.<g2>.<g3>\<close> alone, and so does
  \<open>bump_patch\<close> when \<open>t\<close> does not begin with a digit: the version text of the numbers
  read, one of them incremented, or \<^verbatim>\<open>ValueError\<close> when the incremented number has
  more than 4300 digits.
\<close>

theorem bump_prefix_unanchored:
  assumes "all_digits g1" "all_digits g2" "all_digits g3"
    and "length g1 \<le> int_max_str_digits" "length g2 \<le> int_max_str_digits"
    and "length (g3 @ takeWhile is_digit t) \<le> int_max_str_digits"
  shows "bump_patch (version_text g1 g2 g3 @ t) =
           (if int_of_digits (g3 @ takeWhile is_digit t) + 1 < 10 ^ int_max_str_digits
            then Inr (version_str (int_of_digits g1) (int_of_digits g2)
                        (int_of_digits (g3 @ takeWhile is_digit t) + 1))
            else Inl ValueError)
         \<and> bump_minor (version_text g1 g2 g3 @ t) =
           (if int_of_digits g2 + 1 < 10 ^ int_max_str_digits
            then Inr (version_str (int_of_digits g1) (int_of_digits g2 + 1) 0)
            else Inl ValueError)
         \<and> bump_major (version_text g1 g2 g3 @ t) =
           (if int_of_digits g1 + 1 < 10 ^ int_max_str_digits
            then Inr (version_str (int_of_digits g1 + 1) 0 0)
            else Inl ValueError)
         \<and> bump_patch (version_text g1 g2 g3 @ t) =
             bump_patch (version_text g1 g2 (g3 @ takeWhile is_digit t))
         \<and> bump_minor (version_text g1 g2 g3 @ t) = bump_minor (version_text g1 g2 g3)
         \<and> bump_major (version_text g1 g2 g3 @ t) = bump_major (version_text g1 g2 g3)
         \<and> (no_digit_ahead t \<longrightarrow>
              bump_patch (version_text g1 g2 g3 @ t) = bump_patch (version_text g1 g2 g3))"
proof -
  let ?g3 = "g3 @ takeWhile is_digit t"
  have nd: "no_digit_ahead t \<Longrightarrow> takeWhile is_digit t = []"
    by (cases t) (simp_all add: no_digit_ahead_def)
  have g3': "all_digits ?g3"
    using assms(3) by (auto simp: all_digits_def list_all_iff dest: set_takeWhileD)
  from assms(6) have l3: "length g3 \<le> int_max_str_digits" by simp
  have m: "re_match_bump (version_text g1 g2 g3 @ t) =
             Some ((g1, g2, ?g3), dropWhile is_digit t)"
    by (rule re_match_bump_version_text [OF assms(1-3)])
  have m0: "re_match_bump (version_text g1 g2 g3) = Some ((g1, g2, g3), [])"
    using re_match_bump_version_text [OF assms(1-3), of "[]"] by simp
  have m1: "re_match_bump (version_text g1 g2 ?g3) = Some ((g1, g2, ?g3), [])"
    using re_match_bump_version_text [OF assms(1,2) g3', of "[]"] by simp
  have p: "parse_groups (g1, g2, ?g3) =
             Inr (int_of_digits g1, int_of_digits g2, int_of_digits ?g3)"
    using assms(4-6) by (simp only: parse_groups_eq) simp
  have p0: "parse_groups (g1, g2, g3) =
              Inr (int_of_digits g1, int_of_digits g2, int_of_digits g3)"
    using assms(4,5) l3 by (simp only: parse_groups_eq) simp
  have b1: "int_of_digits g1 < 10 ^ int_max_str_digits"
    and b2: "int_of_digits g2 < 10 ^ int_max_str_digits"
    and b3: "int_of_digits ?g3 < 10 ^ int_max_str_digits"
    and b30: "int_of_digits g3 < 10 ^ int_max_str_digits"
    using assms(4-6) l3 by (simp_all only: int_of_digits_below_limit)
  have zero: "(0::nat) < 10 ^ int_max_str_digits" by simp
  have patch: "bump_patch (version_text g1 g2 g3 @ t) =
           (if int_of_digits ?g3 + 1 < 10 ^ int_max_str_digits
            then Inr (version_str (int_of_digits g1) (int_of_digits g2) (int_of_digits ?g3 + 1))
            else Inl ValueError)"
    using b1 b2 by (simp add: bump_patch_def m p and_then_def fmt_version_eq)
  have patch1: "bump_patch (version_text g1 g2 ?g3) = bump_patch (version_text g1 g2 g3 @ t)"
    by (simp add: bump_patch_def m m1)
  have minor: "bump_minor (version_text g1 g2 g3 @ t) =
           (if int_of_digits g2 + 1 < 10 ^ int_max_str_digits
            then Inr (version_str (int_of_digits g1) (int_of_digits g2 + 1) 0)
            else Inl ValueError)"
    using b1 zero by (simp add: bump_minor_def m p and_then_def fmt_version_eq)
  have minor0: "bump_minor (version_text g1 g2 g3) = bump_minor (version_text g1 g2 g3 @ t)"
    by (simp add: bump_minor_def m m0 p p0 and_then_def)
  have major: "bump_major (version_text g1 g2 g3 @ t) =
           (if int_of_digits g1 + 1 < 10 ^ int_max_str_digits
            then Inr (version_str (int_of_digits g1 + 1) 0 0)
            else Inl ValueError)"
    using zero by (simp add: bump_major_def m p and_then_def fmt_version_eq)
  have major0: "bump_major (version_text g1 g2 g3) = bump_major (version_text g1 g2 g3 @ t)"
    by (simp add: bump_major_def m m0 p p0 and_then_def)
  have clean: "no_digit_ahead t \<longrightarrow>
      bump_patch (version_text g1 g2 g3 @ t) = bump_patch (version_text g1 g2 g3)"
    using patch1 nd by auto
  from patch minor major patch1 minor0 major0 clean show ?thesis by simp
qed

lemma beta_not_digit: "takeWhile is_digit (codes ''-beta'') = []"
  by (simp add: codes_def is_digit_def to_decimal_def unicode_decimal_zeros_def)

lemma beta_kept: "dropWhile is_digit (codes ''-beta'') = codes ''-beta''"
  by (simp add: codes_def is_digit_def to_decimal_def unicode_decimal_zeros_def)

lemma arabic_one: "is_digit 1633" "digit_val 1633 = 1"
  by (simp_all add: is_digit_def digit_val_def to_decimal_def unicode_decimal_zeros_def)

theorem bump_prefix_unanchored_witness:
  "all_digits [49] \<and> all_digits [48] \<and> length [49::nat] \<le> int_max_str_digits
   \<and> bump_patch (codes ''v1.0.0-beta'') = Inr (codes ''v1.0.1'')
   \<and> bump_minor (codes ''v1.0.0-beta'') = Inr (codes ''v1.1.0'')
   \<and> bump_major (codes ''v1.0.0-beta'') = Inr (codes ''v2.0.0'')
   \<and> bump_patch (codes ''v1.0.0'' @ [1633] @ codes ''-beta'') = Inr (codes ''v1.0.2'')"
proof -
  have d1: "all_digits [49]" and d0: "all_digits [48]"
    using all_digits_single [of 1] all_digits_single [of 0] by simp_all
  have l: "length [49::nat] \<le> int_max_str_digits" "length [48::nat] \<le> int_max_str_digits"
    by (simp_all add: int_max_str_digits_def)
  have tw2: "takeWhile is_digit ([1633] @ codes ''-beta'') = [1633]"
    by (simp add: arabic_one beta_not_digit)
  have l3: "length ([48] @ takeWhile is_digit (codes ''-beta'')) \<le> int_max_str_digits"
           "length ([48] @ takeWhile is_digit ([1633] @ codes ''-beta'')) \<le> int_max_str_digits"
    unfolding beta_not_digit tw2 by (simp_all add: int_max_str_digits_def)
  have i: "int_of_digits [49] = 1" "int_of_digits [48] = 0" "int_of_digits ([48] @ []) = 0"
          "int_of_digits ([48] @ [1633]) = 1"
    using int_of_digits_single [of 1] int_of_digits_single [of 0]
    by (simp_all add: int_of_digits_def arabic_one)
  have s: "version_text [49] [48] [48] @ codes ''-beta'' = codes ''v1.0.0-beta''"
          "version_text [49] [48] [48] @ [1633] @ codes ''-beta''
             = codes ''v1.0.0'' @ [1633] @ codes ''-beta''"
    by (simp_all add: version_text_def codes_def)
  have v: "version_str 1 0 1 = codes ''v1.0.1''" "version_str 1 1 0 = codes ''v1.1.0''"
          "version_str 2 0 0 = codes ''v2.0.0''" "version_str 1 0 2 = codes ''v1.0.2''"
    by (simp_all add: version_str_def version_text_def codes_def str_nat_small)
  have e: "(0::nat) + 1 = 1" "(1::nat) + 1 = 2" by simp_all
  have small: "((1::nat) < 10 ^ int_max_str_digits) = True"
              "((2::nat) < 10 ^ int_max_str_digits) = True"
    by (simp_all add: small_below_limit)
  note a = bump_prefix_unanchored [OF d1 d0 d0 l(1) l(2) l3(1),
             unfolded s beta_not_digit i e small if_True v]
  note b = bump_prefix_unanchored [OF d1 d0 d0 l(1) l(2) l3(2),
             unfolded s tw2 i e small if_True v]
  from a have "bump_patch (codes ''v1.0.0-beta'') = Inr (codes ''v1.0.1'')"
    and "bump_minor (codes ''v1.0.0-beta'') = Inr (codes ''v1.1.0'')"
    and "bump_major (codes ''v1.0.0-beta'') = Inr (codes ''v2.0.0'')"
    by blast+
  moreover from b
  have "bump_patch (codes ''v1.0.0'' @ [1633] @ codes ''-beta'') = Inr (codes ''v1.0.2'')"
    by blast
  ultimately show ?thesis using d1 d0 l(1) by blast
qed

text \<open>
  C10 as stated fails for a prefix with a group of more than 4300 digits: the input
  begins with a version text and goes on with \<^verbatim>\<open>-beta\<close>, and the three functions raise
  \<^verbatim>\<open>ValueError\<close> instead of bumping the prefix.
\<close>

theorem bump_prefix_too_long_counterexample:
  "int_max_str_digits = 4300
   \<and> has_version_prefix (codes ''v1.0.'' @ replicate (Suc int_max_str_digits) 49 @ codes ''-beta'')
   \<and> bump_patch (codes ''v1.0.'' @ replicate (Suc int_max_str_digits) 49 @ codes ''-beta'')
        = Inl ValueError
   \<and> bump_minor (codes ''v1.0.'' @ replicate (Suc int_max_str_digits) 49 @ codes ''-beta'')
        = Inl ValueError
   \<and> bump_major (codes ''v1.0.'' @ replicate (Suc int_max_str_digits) 49 @ codes ''-beta'')
        = Inl ValueError"
proof -
  let ?g3 = "replicate (Suc int_max_str_digits) (49::nat)"
  let ?s = "codes ''v1.0.'' @ ?g3 @ codes ''-beta''"
  have d1: "all_digits [49]" and d0: "all_digits [48]"
    using all_digits_single [of 1] all_digits_single [of 0] by simp_all
  have d3: "all_digits ?g3"
    using all_digits_replicate [of "Suc int_max_str_digits" 1] by simp
  have s: "?s = version_text [49] [48] ?g3 @ codes ''-beta''"
    by (simp add: version_text_def codes_def)
  then have pre: "has_version_prefix ?s"
    unfolding has_version_prefix_def using d1 d0 d3 by blast
  have m: "re_match_bump ?s = Some (([49], [48], ?g3), codes ''-beta'')"
    unfolding s using re_match_bump_version_text [OF d1 d0 d3, of "codes ''-beta''"]
    by (simp add: beta_not_digit beta_kept)
  have p: "parse_groups ([49], [48], ?g3) = Inl ValueError"
    by (simp only: parse_groups_eq) simp
  have "bump_patch ?s = Inl ValueError" "bump_minor ?s = Inl ValueError"
       "bump_major ?s = Inl ValueError"
    unfolding bump_patch_def bump_minor_def bump_major_def m
    by (simp_all only: option.case prod.case p and_then_def sum.case)
  with pre int_max_str_digits_def show ?thesis by (intro conjI)
qed

section \<open>Properties of the registry updater\<close>

lemma update_present:
  assumes "m \<in> set (map fst d)"
  shows "update_model_version now (Some (Document (JObj d))) m v =
           \<lparr>states = [Some (Document (JObj d)), Some Incomplete,
                       Some (Document (JObj (AList.update ''last_updated'' (JStr (now @ ''Z''))
                                               (AList.update m (JStr v) d))))],
            stdout = [Updated m (case map_of d m of Some x \<Rightarrow> x | None \<Rightarrow> JStr ''unknown'') v,
                      RegistrySaved],
            ending = Returned\<rparr>"
  using assms by (simp add: update_model_version_def)

lemma update_absent:
  assumes "m \<notin> set (map fst d)"
  shows "update_model_version now (Some (Document (JObj d))) m v =
           \<lparr>states = [Some (Document (JObj d))],
            stdout = [ModelNotFound m, AvailableModels (map fst d)],
            ending = SysExit 1\<rparr>"
  using assms by (simp add: update_model_version_def)

lemma top_level_doc: "top_level (Some (Document (JObj d))) k = map_of d k"
  by (simp add: top_level_def)

lemma top_keys_doc: "top_keys (Some (Document (JObj d))) = map fst d"
  by (simp add: top_keys_def)

lemma map_of_update: "map_of (AList.update k v al) k' = (if k' = k then Some v else map_of al k')"
  by (simp add: update_conv')

lemma keys_update:
  "map fst (AList.update k v al) = (if k \<in> set (map fst al) then map fst al else map fst al @ [k])"
  by (simp add: update_keys)




lemma example_keys:
  "map fst example_registry =
     [''embedding_model'', ''emergency_classifier'', ''translation_model'', ''last_updated'', ''metadata'']"
  by (simp add: example_registry_def)

text \<open>
  The update returns only on a JSON object that has the model name as a key, and a
  call that does not return never writes the file.
\<close>

lemma failed_update_writes_nothing:
  assumes "ending (update_model_version now file m v) \<noteq> Returned"
  shows "states (update_model_version now file m v) = [file]
         \<and> disk (update_model_version now file m v) = file"
  using assms
  by (auto simp: update_model_version_def disk_def Let_def
           split: option.splits file_content.splits sum.splits bool.splits json.splits)

lemma successful_update_needs_object:
  assumes "ending (update_model_version now file m v) = Returned"
  shows "\<exists>d. file = Some (Document (JObj d)) \<and> m \<in> set (map fst d)"
  using assms
  by (auto simp: update_model_version_def Let_def
           split: option.splits file_content.splits sum.splits bool.splits json.splits)


text \<open>
  C1. For every state of the registry file and every update of a model entry \<open>m\<close> (a
  name other than the two keys that are not models, the time stamp and the metadata)
  that returns, the document left on disk maps \<open>m\<close> to the new version and
  \<^verbatim>\<open>last_updated\<close> to the clock reading followed by \<^verbatim>\<open>Z\<close>; every other top-level
  key, the whole of \<^verbatim>\<open>metadata\<close> among them, has the value it had before; no key is
  added but \<^verbatim>\<open>last_updated\<close> when it was missing, and no key changes place.
\<close>

theorem update_frame:
  assumes "ending (update_model_version now file m v) = Returned"
    and "m \<noteq> ''last_updated''" and "m \<noteq> ''metadata''"
  shows "top_level (disk (update_model_version now file m v)) m = Some (JStr v)
    \<and> top_level (disk (update_model_version now file m v)) ''last_updated''
        = Some (JStr (now @ ''Z''))
    \<and> top_level (disk (update_model_version now file m v)) ''metadata''
        = top_level file ''metadata''
    \<and> (\<forall>k. k \<noteq> m \<and> k \<noteq> ''last_updated'' \<longrightarrow>
          top_level (disk (update_model_version now file m v)) k = top_level file k)
    \<and> top_keys (disk (update_model_version now file m v))
        = (if ''last_updated'' \<in> set (top_keys file) then top_keys file
           else top_keys file @ [''last_updated''])"
proof -
  from successful_update_needs_object [OF assms(1)]
  obtain d where fd: "file = Some (Document (JObj d))" and key: "m \<in> set (map fst d)"
    by blast
  from key assms(2,3) show ?thesis
    unfolding fd
    by (simp add: update_present [OF key] disk_def top_level_doc top_keys_doc
          map_of_update keys_update)
qed

theorem update_frame_witness:
  "ending (update_model_version example_now example_file ''embedding_model'' ''v1.1.0'') = Returned
   \<and> top_level (disk (update_model_version example_now example_file ''embedding_model'' ''v1.1.0''))
        ''embedding_model'' = Some (JStr ''v1.1.0'')
   \<and> top_level (disk (update_model_version example_now example_file ''embedding_model'' ''v1.1.0''))
        ''emergency_classifier'' = Some (JStr ''v1.0.0'')
   \<and> top_level (disk (update_model_version example_now example_file ''embedding_model'' ''v1.1.0''))
        ''metadata''
       = Some (JObj [(''embedding_model'',
                        JObj [(''dimension'', JInt 768), (''base'', JStr ''test-model'')])])"
proof -
  have r: "ending (update_model_version example_now example_file ''embedding_model'' ''v1.1.0'')
             = Returned"
    by (simp add: example_file_def example_keys update_present)
  have old: "top_level example_file ''metadata''
       = Some (JObj [(''embedding_model'',
                        JObj [(''dimension'', JInt 768), (''base'', JStr ''test-model'')])])"
       "top_level example_file ''emergency_classifier'' = Some (JStr ''v1.0.0'')"
    by (simp_all add: example_file_def top_level_doc example_registry_def)
  have ne: "''embedding_model'' \<noteq> ''last_updated''" "''embedding_model'' \<noteq> ''metadata''"
           "''emergency_classifier'' \<noteq> ''embedding_model'' \<and> ''emergency_classifier'' \<noteq> ''last_updated''"
    by simp_all
  from update_frame [OF r ne(1) ne(2)] r old ne(3)
  show ?thesis by metis
qed

text \<open>
  What the check of the model name does when the name is no top-level key of the
  document: the diagnostic naming the model, exit status 1, and the file never opened
  for writing.
\<close>

lemma unknown_model_rejected:
  assumes "m \<notin> set (map fst d)"
  shows "ending (update_model_version now (Some (Document (JObj d))) m v) = SysExit 1
    \<and> stdout (update_model_version now (Some (Document (JObj d))) m v)
        = [ModelNotFound m, AvailableModels (map fst d)]
    \<and> states (update_model_version now (Some (Document (JObj d))) m v) = [Some (Document (JObj d))]
    \<and> disk (update_model_version now (Some (Document (JObj d))) m v) = Some (Document (JObj d))
    \<and> m \<notin> set (top_keys (disk (update_model_version now (Some (Document (JObj d))) m v)))
    \<and> exit_code (ending (main now (Some (Document (JObj d))) [prog, m, v])) = 1
    \<and> ModelNotFound m \<in> set (stdout (main now (Some (Document (JObj d))) [prog, m, v]))
    \<and> disk (main now (Some (Document (JObj d))) [prog, m, v]) = Some (Document (JObj d))"
  using assms
  by (simp add: update_absent disk_def top_keys_doc main_def Let_def)

text \<open>
  C2 on the code. The claim is that an update naming a model that is not an entry of
  the document fails and leaves the document as it was. \<^verbatim>\<open>metadata\<close> is no model entry,
  yet the membership test ranges over all top-level keys: on a document that carries
  metadata the update is accepted, and the metadata object is replaced by the version
  string.
\<close>

theorem reserved_key_taken_for_model:
  "''metadata'' \<notin> {''embedding_model'', ''emergency_classifier'', ''translation_model''}
   \<and> ending (update_model_version example_now example_file ''metadata'' ''v1.0.0'') = Returned
   \<and> top_level example_file ''metadata''
       = Some (JObj [(''embedding_model'',
                        JObj [(''dimension'', JInt 768), (''base'', JStr ''test-model'')])])
   \<and> top_level (disk (update_model_version example_now example_file ''metadata'' ''v1.0.0''))
        ''metadata'' = Some (JStr ''v1.0.0'')"
  by (simp add: example_file_def example_keys update_present disk_def top_level_doc map_of_update)
     (simp add: example_registry_def)
















section \<open>Properties of the start-up hook\<close>

text \<open>
  C6 (as amended). When there is no registry file, the start-up hook logs the warning
  and goes on with the default map, \<^verbatim>\<open>v1.0.0\<close> for each of the three models (and
  \<^verbatim>\<open>unknown\<close> for the time stamp); the registry block raises nothing, so the hook
  raises only what the loading of the models raises.
\<close>

theorem startup_without_registry:
  "model_versions (load_models None rest) =
     [(''embedding_model'', JStr ''v1.0.0''),
      (''emergency_classifier'', JStr ''v1.0.0''),
      (''translation_model'', JStr ''v1.0.0''),
      (''last_updated'', JStr ''unknown'')]
   \<and> (WARNING, RegistryNotFoundAt) \<in> set (log (load_models None rest))
   \<and> registry_block None \<noteq> Inl e
   \<and> raised (load_models None rest) = snd rest"
proof -
  have block: "registry_block None =
      Inr ([(''embedding_model'', JStr ''v1.0.0''),
            (''emergency_classifier'', JStr ''v1.0.0''),
            (''translation_model'', JStr ''v1.0.0''),
            (''last_updated'', JStr ''unknown'')],
           [(WARNING, RegistryNotFoundAt)])"
    by (simp add: registry_block_def)
  show ?thesis
  proof (cases "snd rest")
    case None
    then show ?thesis by (simp add: load_models_def block)
  next
    case (Some x)
    then show ?thesis by (simp add: load_models_def block)
  qed
qed

text \<open>
  C6 as stated fails for a file that is present and cannot be parsed: the exception of
  \<^verbatim>\<open>json.load\<close> is logged as an error and raised again, no warning is logged and the
  default map is not assigned.
\<close>

theorem startup_corrupt_registry_counterexample:
  "raised (load_models (Some Malformed) ([], None)) = Some JSONDecodeError
   \<and> model_versions (load_models (Some Malformed) ([], None)) = []
   \<and> (WARNING, RegistryNotFoundAt) \<notin> set (log (load_models (Some Malformed) ([], None)))
   \<and> raised (load_models None ([], None)) = None"
  by (simp add: load_models_def registry_block_def)


end
